theory Spec2Isabelle
  imports Complex_Main "HOL-Library.Word"
begin

section \<open>Admission counter (message\_counts.go)\<close>

text \<open>
  Go's \<open>int\<close> is a 64-bit two's-complement integer on the platforms the node is built
  for: \<open>+\<close> and \<open>++\<close> wrap around, and comparisons are signed (\<open><s\<close>, \<open>\<le>s\<close>).
\<close>

type_synonym go_int = "64 word"

record MessageCounts =
  PreConsensus :: go_int
  Proposal :: go_int
  Prepare :: go_int
  Commit :: go_int
  Decided :: go_int
  RoundChange :: go_int
  PostConsensus :: go_int

text \<open>\<open>maxMessageCounts\<close>: the maximum number of acceptable messages from a signer
  within a slot and round.\<close>

definition maxMessageCounts :: "go_int \<Rightarrow> MessageCounts" where
  "maxMessageCounts committeeSize =
     \<lparr> PreConsensus = 1,
       Proposal = 1,
       Prepare = 1,
       Commit = 1,
       Decided = committeeSize + 1,
       RoundChange = 1,
       PostConsensus = 1 \<rparr>"

text \<open>The zero value of the struct: the counts of a key that has seen no message.\<close>

definition zeroCounts :: MessageCounts where
  "zeroCounts =
     \<lparr> PreConsensus = 0, Proposal = 0, Prepare = 0, Commit = 0,
       Decided = 0, RoundChange = 0, PostConsensus = 0 \<rparr>"

subsection \<open>Formatting\<close>

text \<open>\<open>fmt\<close>'s \<open>%v\<close> of an \<open>int\<close>: its decimal digits, with a minus sign when negative.\<close>

fun decimal :: "nat \<Rightarrow> string" where
  "decimal n =
     (if n < 10 then [''0123456789'' ! n]
      else decimal (n div 10) @ [''0123456789'' ! (n mod 10)])"

declare decimal.simps [simp del]

definition fmt_int :: "go_int \<Rightarrow> string" where
  "fmt_int x =
     (if sint x < 0 then CHR ''-'' # decimal (nat (- sint x)) else decimal (nat (sint x)))"

text \<open>
  Methods on \<open>*MessageCounts\<close> are state transformers: they take the counts the
  receiver points to and return their result together with the counts afterwards.
\<close>

definition String :: "MessageCounts \<Rightarrow> string \<times> MessageCounts" where
  "String c =
     (''pre-consensus: '' @ fmt_int (PreConsensus c) @
      '', proposal: '' @ fmt_int (Proposal c) @
      '', prepare: '' @ fmt_int (Prepare c) @
      '', commit: '' @ fmt_int (Commit c) @
      '', decided: '' @ fmt_int (Decided c) @
      '', round change: '' @ fmt_int (RoundChange c) @
      '', post-consensus: '' @ fmt_int (PostConsensus c), c)"

subsection \<open>Decoded messages\<close>

text \<open>
  The message types come from the ssv-spec library. A QBFT message type and a
  partial-signature type are integer-based enumerations; the named constants the code
  switches on are constructors, and every other value of the type is \<open>Other\<dots>\<close>.
  Only the fields the counter reads are kept; the \<open>Message\<close> field of a signed
  partial-signature message is named \<open>PSMessage\<close> here, apart from that of a signed
  QBFT message.
\<close>

datatype MessageType =
  ProposalMsgType | PrepareMsgType | CommitMsgType | RoundChangeMsgType
  | OtherMsgType nat

datatype PartialSigMsgType =
  PostConsensusPartialSig | RandaoPartialSig | SelectionProofPartialSig
  | ContributionProofs | ValidatorRegistrationPartialSig
  | OtherPartialSigMsgType nat

type_synonym OperatorID = "64 word"

record QBFTMessage =
  MsgType :: MessageType

record SignedMessage =
  Signers :: "OperatorID list"
  Message :: QBFTMessage

record PartialSignatureMessages =
  Type :: PartialSigMsgType

record SignedPartialSignatureMessage =
  PSMessage :: PartialSignatureMessages
  Signer :: OperatorID

text \<open>
  \<open>msg.Body\<close> is an interface value; the type switch tells a
  \<open>*specqbft.SignedMessage\<close> and a \<open>*spectypes.SignedPartialSignatureMessage\<close>
  from a value of any other dynamic type, which \<open>OtherBody\<close> stands for, carrying
  the text \<open>fmt\<close> renders it to under \<open>%d\<close>. The messages are those the queue's
  decoder hands over: the pointers the methods dereference without a check are not nil.
\<close>

datatype Body =
  SignedMessageBody SignedMessage
  | SignedPartialSignatureMessageBody SignedPartialSignatureMessage
  | OtherBody string

record DecodedSSVMessage =
  Body :: Body

text \<open>The decoded message around a signed QBFT message, and around a signed
  partial-signature message: every message with such a body is one of these.\<close>

definition signedMessage :: "MessageType \<Rightarrow> OperatorID list \<Rightarrow> DecodedSSVMessage" where
  "signedMessage t signers =
     \<lparr> Body = SignedMessageBody \<lparr> Signers = signers, Message = \<lparr> MsgType = t \<rparr> \<rparr> \<rparr>"

definition partialSignatureMessage :: "PartialSigMsgType \<Rightarrow> OperatorID \<Rightarrow> DecodedSSVMessage" where
  "partialSignatureMessage t signer =
     \<lparr> Body = SignedPartialSignatureMessageBody
                \<lparr> PSMessage = \<lparr> Type = t \<rparr>, Signer = signer \<rparr> \<rparr>"

subsection \<open>Errors\<close>

text \<open>
  Modelled from the spec: the declaration of \<open>ErrUnexpectedMessageType\<close> is not in the
  files at hand. The spec names the kind \<open>UnexpectedMessageType\<close>, which carries a
  human-readable description (the \<open>got\<close> field the code assigns). \<open>Errorf\<close> is an
  error value made by \<open>fmt.Errorf\<close>, with its message.
\<close>

datatype error =
  ErrUnexpectedMessageType string
  | Errorf string

definition unexpected :: "string \<Rightarrow> MessageCounts \<Rightarrow> error option \<times> MessageCounts" where
  "unexpected what c =
     (case String c of
        (s, c') \<Rightarrow> (Some (ErrUnexpectedMessageType (what @ '', having '' @ s)), c'))"

subsection \<open>Validate, Record, ReachedLimits\<close>

text \<open>The branch shared by the four pre-consensus partial-signature types.\<close>

definition validatePreConsensus :: "MessageCounts \<Rightarrow> error option \<times> MessageCounts" where
  "validatePreConsensus c =
     (if 0 <s PreConsensus c then unexpected ''pre-consensus'' c else (None, c))"

definition Validate :: "DecodedSSVMessage \<Rightarrow> MessageCounts \<Rightarrow> error option \<times> MessageCounts" where
  "Validate msg c =
     (case Body msg of
        SignedMessageBody m \<Rightarrow>
          (case MsgType (Message m) of
             ProposalMsgType \<Rightarrow>
               if 0 <s Commit c \<or> 0 <s Decided c \<or> 0 <s PostConsensus c
               then unexpected ''proposal'' c
               else (None, c)
           | PrepareMsgType \<Rightarrow>
               if 0 <s Prepare c \<or> 0 <s Commit c \<or> 0 <s Decided c \<or> 0 <s PostConsensus c
               then unexpected ''prepare'' c
               else (None, c)
           | CommitMsgType \<Rightarrow>
               if (length (Signers m) = 1 \<and> 0 <s Commit c) \<or> 0 <s Decided c
                  \<or> 0 <s PostConsensus c
               then unexpected ''commit'' c
               else if (1 < length (Signers m) \<and> 0 <s Decided c) \<or> 0 <s PostConsensus c
               then unexpected ''decided'' c
               else (None, c)
           | RoundChangeMsgType \<Rightarrow>
               if 0 <s RoundChange c
               then unexpected ''round change'' c
               else (None, c)
           | OtherMsgType _ \<Rightarrow> (None, c))
      | SignedPartialSignatureMessageBody m \<Rightarrow>
          (case Type (PSMessage m) of
             RandaoPartialSig \<Rightarrow> validatePreConsensus c
           | SelectionProofPartialSig \<Rightarrow> validatePreConsensus c
           | ContributionProofs \<Rightarrow> validatePreConsensus c
           | ValidatorRegistrationPartialSig \<Rightarrow> validatePreConsensus c
           | PostConsensusPartialSig \<Rightarrow>
               if 0 <s PostConsensus c
               then unexpected ''post-consensus'' c
               else (None, c)
           | OtherPartialSigMsgType _ \<Rightarrow> (None, c))
      | OtherBody d \<Rightarrow> (Some (Errorf (''unexpected message type: '' @ d)), c))"

text \<open>\<open>Record\<close> panics on a body of another type: \<open>Inl\<close> is the panic's value.\<close>

definition Record :: "DecodedSSVMessage \<Rightarrow> MessageCounts \<Rightarrow> string + MessageCounts" where
  "Record msg c =
     (case Body msg of
        SignedMessageBody m \<Rightarrow>
          (case MsgType (Message m) of
             ProposalMsgType \<Rightarrow> Inr (c\<lparr>Proposal := Proposal c + 1\<rparr>)
           | PrepareMsgType \<Rightarrow> Inr (c\<lparr>Prepare := Prepare c + 1\<rparr>)
           | CommitMsgType \<Rightarrow>
               if length (Signers m) = 1 then Inr (c\<lparr>Commit := Commit c + 1\<rparr>)
               else if 1 < length (Signers m) then Inr (c\<lparr>Decided := Decided c + 1\<rparr>)
               else Inr c
           | RoundChangeMsgType \<Rightarrow> Inr (c\<lparr>RoundChange := RoundChange c + 1\<rparr>)
           | OtherMsgType _ \<Rightarrow> Inr c)
      | SignedPartialSignatureMessageBody m \<Rightarrow>
          (case Type (PSMessage m) of
             RandaoPartialSig \<Rightarrow> Inr (c\<lparr>PreConsensus := PreConsensus c + 1\<rparr>)
           | SelectionProofPartialSig \<Rightarrow> Inr (c\<lparr>PreConsensus := PreConsensus c + 1\<rparr>)
           | ContributionProofs \<Rightarrow> Inr (c\<lparr>PreConsensus := PreConsensus c + 1\<rparr>)
           | ValidatorRegistrationPartialSig \<Rightarrow>
               Inr (c\<lparr>PreConsensus := PreConsensus c + 1\<rparr>)
           | PostConsensusPartialSig \<Rightarrow> Inr (c\<lparr>PostConsensus := PostConsensus c + 1\<rparr>)
           | OtherPartialSigMsgType _ \<Rightarrow> Inr c)
      | OtherBody d \<Rightarrow> Inl ''unexpected message type'')"

definition ReachedLimits :: "MessageCounts \<Rightarrow> MessageCounts \<Rightarrow> bool" where
  "ReachedLimits c limits \<longleftrightarrow>
     PreConsensus limits \<le>s PreConsensus c \<or>
     Proposal limits \<le>s Proposal c \<or>
     Prepare limits \<le>s Prepare c \<or>
     Commit limits \<le>s Commit c \<or>
     Decided limits \<le>s Decided c \<or>
     RoundChange limits \<le>s RoundChange c \<or>
     PostConsensus limits \<le>s PostConsensus c"

subsection \<open>The history of a key\<close>

text \<open>
  The pipeline calls \<open>Record\<close> once for each message it admits, on the counts of the
  message's key. \<open>recordAll\<close> runs these calls over a history, oldest first, from given
  counts; a panic ends the run.
\<close>

fun recordAll :: "DecodedSSVMessage list \<Rightarrow> MessageCounts \<Rightarrow> string + MessageCounts" where
  "recordAll [] c = Inr c"
| "recordAll (msg # msgs) c =
     (case Record msg c of Inl p \<Rightarrow> Inl p | Inr c' \<Rightarrow> recordAll msgs c')"

text \<open>
  The spec's taxonomy of message kinds, read off the switch of \<open>Record\<close>: the kind a
  message counts as, if any, and the field of the counts that belongs to a kind.
\<close>

datatype MessageKind =
  KPreConsensus | KProposal | KPrepare | KCommit | KDecided | KRoundChange | KPostConsensus

definition kindOf :: "DecodedSSVMessage \<Rightarrow> MessageKind option" where
  "kindOf msg =
     (case Body msg of
        SignedMessageBody m \<Rightarrow>
          (case MsgType (Message m) of
             ProposalMsgType \<Rightarrow> Some KProposal
           | PrepareMsgType \<Rightarrow> Some KPrepare
           | CommitMsgType \<Rightarrow>
               if length (Signers m) = 1 then Some KCommit
               else if 1 < length (Signers m) then Some KDecided
               else None
           | RoundChangeMsgType \<Rightarrow> Some KRoundChange
           | OtherMsgType _ \<Rightarrow> None)
      | SignedPartialSignatureMessageBody m \<Rightarrow>
          (case Type (PSMessage m) of
             RandaoPartialSig \<Rightarrow> Some KPreConsensus
           | SelectionProofPartialSig \<Rightarrow> Some KPreConsensus
           | ContributionProofs \<Rightarrow> Some KPreConsensus
           | ValidatorRegistrationPartialSig \<Rightarrow> Some KPreConsensus
           | PostConsensusPartialSig \<Rightarrow> Some KPostConsensus
           | OtherPartialSigMsgType _ \<Rightarrow> None)
      | OtherBody _ \<Rightarrow> None)"

fun countOf :: "MessageKind \<Rightarrow> MessageCounts \<Rightarrow> go_int" where
  "countOf KPreConsensus c = PreConsensus c"
| "countOf KProposal c = Proposal c"
| "countOf KPrepare c = Prepare c"
| "countOf KCommit c = Commit c"
| "countOf KDecided c = Decided c"
| "countOf KRoundChange c = RoundChange c"
| "countOf KPostConsensus c = PostConsensus c"

definition recorded :: "MessageKind \<Rightarrow> DecodedSSVMessage list \<Rightarrow> nat" where
  "recorded k msgs = length (filter (\<lambda>msg. kindOf msg = Some k) msgs)"

section \<open>Admission descriptor builder (logger\_fields.go)\<close>









section \<open>Peer score inspector (network/topics)\<close>

text \<open>
  The scores are \<open>float64\<close> values. The inspector uses the constant 0, \<open>+=\<close>,
  \<open>math.Sqrt\<close>, \<open><\<close> and \<open>!=\<close> on them; the model takes the type of the values and
  these operations as a parameter, and so holds for whatever they compute.
\<close>

record 'f float64_ops =
  f_zero :: 'f
  f_add :: "'f \<Rightarrow> 'f \<Rightarrow> 'f"
  f_sqrt :: "'f \<Rightarrow> 'f"
  f_less :: "'f \<Rightarrow> 'f \<Rightarrow> bool"
  f_neq :: "'f \<Rightarrow> 'f \<Rightarrow> bool"

record 'f TopicScoreSnapshot =
  MeshMessageDeliveries :: 'f
  InvalidMessageDeliveries :: 'f

record 'f TopicScoreParams =
  MeshMessageDeliveriesThreshold :: 'f

text \<open>The three variables the loop over a peer's topics updates.\<close>

record 'f topicTotals =
  filtered :: "string \<rightharpoonup> 'f TopicScoreSnapshot"
  totalInvalidMessages :: 'f
  totalLowMeshDeliveries :: go_int

definition inspectTopic ::
  "'f float64_ops \<Rightarrow> (string \<rightharpoonup> 'f TopicScoreParams) \<Rightarrow> string \<times> 'f TopicScoreSnapshot
     \<Rightarrow> 'f topicTotals \<Rightarrow> 'f topicTotals" where
  "inspectTopic ops peerScoreParams ts st =
     (case ts of (topic, snapshot) \<Rightarrow>
        (let st1 = (if f_neq ops (InvalidMessageDeliveries snapshot) (f_zero ops)
                    then st \<lparr> filtered := (filtered st)(topic \<mapsto> snapshot) \<rparr>
                    else st);
             st2 = (if f_less ops (f_zero ops) (InvalidMessageDeliveries snapshot)
                    then st1 \<lparr> totalInvalidMessages :=
                                 f_add ops (totalInvalidMessages st1)
                                   (f_sqrt ops (InvalidMessageDeliveries snapshot)) \<rparr>
                    else st1)
         in case peerScoreParams topic of
              Some topicParams \<Rightarrow>
                if f_less ops (MeshMessageDeliveries snapshot)
                     (MeshMessageDeliveriesThreshold topicParams)
                then st2 \<lparr> totalLowMeshDeliveries := totalLowMeshDeliveries st2 + 1 \<rparr>
                else st2
            | None \<Rightarrow> st2))"

text \<open>
  The loop ranges over the peer's map of topics; the list is the map's entries in the
  order the iteration visits them.
\<close>

fun inspectTopics ::
  "'f float64_ops \<Rightarrow> (string \<rightharpoonup> 'f TopicScoreParams) \<Rightarrow> (string \<times> 'f TopicScoreSnapshot) list
     \<Rightarrow> 'f topicTotals \<Rightarrow> 'f topicTotals" where
  "inspectTopics ops peerScoreParams [] st = st"
| "inspectTopics ops peerScoreParams (ts # rest) st =
     inspectTopics ops peerScoreParams rest (inspectTopic ops peerScoreParams ts st)"

definition scoreInspector ::
  "'f float64_ops \<Rightarrow> (string \<rightharpoonup> 'f TopicScoreParams) \<Rightarrow> (string \<times> 'f TopicScoreSnapshot) list
     \<Rightarrow> 'f topicTotals" where
  "scoreInspector ops peerScoreParams topics =
     inspectTopics ops peerScoreParams topics
       \<lparr> filtered = Map.empty, totalInvalidMessages = f_zero ops,
         totalLowMeshDeliveries = 0 \<rparr>"

text \<open>Exact arithmetic on the reals, as one instance of the operations.\<close>

definition exact_ops :: "real float64_ops" where
  "exact_ops =
     \<lparr> f_zero = 0, f_add = (+), f_sqrt = sqrt, f_less = (<), f_neq = (\<noteq>) \<rparr>"

section \<open>Properties of the admission counter\<close>

subsection \<open>Auxiliary facts\<close>

lemma sint_succ64: "sint (x :: go_int) < 2^63 - 1 \<Longrightarrow> sint (x + 1) = sint x + 1"
proof -
  assume a: "sint x < 2^63 - 1"
  have b: "- (2^63) \<le> sint x" using sint_ge[of x] by simp
  show ?thesis
    using a b by (simp add: sint_word_ariths signed_take_bit_int_eq_self)
qed

lemma String_frame: "snd (String c) = c"
  by (simp add: String_def)

lemma unexpected_eq:
  "unexpected what c =
     (Some (ErrUnexpectedMessageType (what @ '', having '' @ fst (String c))), c)"
  using String_frame[of c] by (cases "String c") (simp add: unexpected_def)

lemma unexpected_frame: "snd (unexpected what c) = c"
  by (simp add: unexpected_eq)

subsection \<open>The limits\<close>

text \<open>
  C4. For every committee size \<open>C\<close> (so for every \<open>C \<ge> 1\<close>), the limits made for \<open>C\<close>
  have \<open>Decided\<close> equal to \<open>C + 1\<close> and every other field equal to 1. The sum is Go's
  \<open>committeeSize + 1\<close>; it is the integer \<open>C + 1\<close> whenever that is representable.
\<close>

theorem maxMessageCounts_limits:
  "Decided (maxMessageCounts C) = C + 1 \<and>
   PreConsensus (maxMessageCounts C) = 1 \<and>
   Proposal (maxMessageCounts C) = 1 \<and>
   Prepare (maxMessageCounts C) = 1 \<and>
   Commit (maxMessageCounts C) = 1 \<and>
   RoundChange (maxMessageCounts C) = 1 \<and>
   PostConsensus (maxMessageCounts C) = 1 \<and>
   (1 \<le> sint C \<and> sint C < 2^63 - 1 \<longrightarrow> sint (Decided (maxMessageCounts C)) = sint C + 1)"
  by (simp add: maxMessageCounts_def sint_succ64)

theorem maxMessageCounts_limits_witness:
  "1 \<le> sint (4 :: go_int) \<and> sint (4 :: go_int) < 2^63 - 1 \<and>
   sint (Decided (maxMessageCounts 4)) = 5 \<and>
   Proposal (maxMessageCounts 4) = 1"
  using maxMessageCounts_limits[of 4] by simp

subsection \<open>Reaching the limits\<close>

text \<open>
  C6. \<open>ReachedLimits\<close> holds if and only if the count of at least one of the seven kinds
  is greater than or equal to its limit. In particular it holds as soon as a single
  kind is at its limit while every other count is zero.
\<close>

theorem ReachedLimits_iff_any:
  "(ReachedLimits c limits \<longleftrightarrow>
      sint (PreConsensus limits) \<le> sint (PreConsensus c) \<or>
      sint (Proposal limits) \<le> sint (Proposal c) \<or>
      sint (Prepare limits) \<le> sint (Prepare c) \<or>
      sint (Commit limits) \<le> sint (Commit c) \<or>
      sint (Decided limits) \<le> sint (Decided c) \<or>
      sint (RoundChange limits) \<le> sint (RoundChange c) \<or>
      sint (PostConsensus limits) \<le> sint (PostConsensus c)) \<and>
   ReachedLimits (zeroCounts\<lparr>PreConsensus := PreConsensus limits\<rparr>) limits \<and>
   ReachedLimits (zeroCounts\<lparr>Proposal := Proposal limits\<rparr>) limits \<and>
   ReachedLimits (zeroCounts\<lparr>Prepare := Prepare limits\<rparr>) limits \<and>
   ReachedLimits (zeroCounts\<lparr>Commit := Commit limits\<rparr>) limits \<and>
   ReachedLimits (zeroCounts\<lparr>Decided := Decided limits\<rparr>) limits \<and>
   ReachedLimits (zeroCounts\<lparr>RoundChange := RoundChange limits\<rparr>) limits \<and>
   ReachedLimits (zeroCounts\<lparr>PostConsensus := PostConsensus limits\<rparr>) limits"
  by (simp add: ReachedLimits_def word_sle_eq)

theorem ReachedLimits_iff_any_witness:
  "ReachedLimits (zeroCounts\<lparr>Proposal := 1\<rparr>) (maxMessageCounts 4) \<and>
   \<not> ReachedLimits zeroCounts (maxMessageCounts 4)"
proof -
  have "ReachedLimits (zeroCounts\<lparr>Proposal := Proposal (maxMessageCounts 4)\<rparr>) (maxMessageCounts 4)"
    using ReachedLimits_iff_any[of zeroCounts "maxMessageCounts 4"] by blast
  moreover have "\<not> ReachedLimits zeroCounts (maxMessageCounts 4)"
    using ReachedLimits_iff_any[of zeroCounts "maxMessageCounts 4"]
    by (simp add: zeroCounts_def maxMessageCounts_def)
  ultimately show ?thesis by (simp add: maxMessageCounts_def)
qed

subsection \<open>Validate leaves the counts alone\<close>

text \<open>
  C9. \<open>Validate\<close> never modifies the counts it is given: for every message and every
  counts, the counts after the call are those before it, whether it returns nil or an
  error. (\<open>Record\<close> is the method that changes them.)
\<close>

theorem Validate_leaves_counts: "snd (Validate msg c) = c"
proof (cases "Body msg")
  case (SignedMessageBody m)
  then show ?thesis
    by (cases "MsgType (Message m)") (simp_all add: Validate_def unexpected_frame)
next
  case (SignedPartialSignatureMessageBody m)
  then show ?thesis
    by (cases "Type (PSMessage m)")
       (simp_all add: Validate_def validatePreConsensus_def unexpected_frame)
next
  case (OtherBody d)
  then show ?thesis by (simp add: Validate_def)
qed

subsection \<open>A commit without signers\<close>

text \<open>
  C10. \<open>Record\<close> of a consensus message of type Commit whose list of signers is empty
  leaves every field of the counts as it was: neither \<open>Commit\<close> nor \<open>Decided\<close> nor
  any other count is incremented.
\<close>

theorem Record_Commit_no_signers:
  assumes "Body msg = SignedMessageBody m"
    and "MsgType (Message m) = CommitMsgType"
    and "Signers m = []"
  shows "Record msg c = Inr c"
  using assms by (simp add: Record_def)

theorem Record_Commit_no_signers_witness:
  "Record \<lparr>Body = SignedMessageBody \<lparr>Signers = [], Message = \<lparr>MsgType = CommitMsgType\<rparr>\<rparr>\<rparr>
     (zeroCounts\<lparr>Proposal := 1\<rparr>) = Inr (zeroCounts\<lparr>Proposal := 1\<rparr>)"
  using Record_Commit_no_signers
    [of "\<lparr>Body = SignedMessageBody \<lparr>Signers = [], Message = \<lparr>MsgType = CommitMsgType\<rparr>\<rparr>\<rparr>"
        "\<lparr>Signers = [], Message = \<lparr>MsgType = CommitMsgType\<rparr>\<rparr>"
        "zeroCounts\<lparr>Proposal := 1\<rparr>"]
  by simp

subsection \<open>Counts and histories\<close>

text \<open>
  After a history has been recorded from the zero counts, each count is the number of
  messages of its kind in the history, as long as the history is shorter than
  \<open>2^63\<close> messages (beyond which a count could wrap around).
\<close>

lemma Record_countOf:
  "Record msg c = Inr c' \<Longrightarrow>
   countOf k c' = (if kindOf msg = Some k then countOf k c + 1 else countOf k c)"
  by (cases k; cases "Body msg")
     (auto simp: Record_def kindOf_def
           split: MessageType.splits PartialSigMsgType.splits if_splits)

lemma recorded_Cons:
  "recorded k (msg # msgs) = (if kindOf msg = Some k then 1 else 0) + recorded k msgs"
  by (simp add: recorded_def)

lemma recordAll_countOf:
  "recordAll msgs c = Inr c' \<Longrightarrow> 0 \<le> sint (countOf k c) \<Longrightarrow>
   sint (countOf k c) + int (length msgs) < 2^63 \<Longrightarrow>
   sint (countOf k c') = sint (countOf k c) + int (recorded k msgs)"
proof (induction msgs arbitrary: c)
  case Nil
  then show ?case by (simp add: recorded_def)
next
  case (Cons msg msgs)
  from Cons.prems(1) obtain c1 where r: "Record msg c = Inr c1" and rest: "recordAll msgs c1 = Inr c'"
    by (auto split: sum.splits)
  have step: "countOf k c1 = (if kindOf msg = Some k then countOf k c + 1 else countOf k c)"
    using r by (rule Record_countOf)
  have small: "sint (countOf k c) < 2^63 - 1"
    using Cons.prems(3) by simp
  have s1: "sint (countOf k c1) = sint (countOf k c) + (if kindOf msg = Some k then 1 else 0)"
    using step small by (simp add: sint_succ64)
  have "sint (countOf k c') = sint (countOf k c1) + int (recorded k msgs)"
    using rest Cons.prems(2,3) s1 by (intro Cons.IH) auto
  then show ?case using s1 by (simp add: recorded_Cons)
qed

lemma countOf_zeroCounts: "countOf k zeroCounts = 0"
  by (cases k) (simp_all add: zeroCounts_def)

lemma history_counts:
  assumes "recordAll msgs zeroCounts = Inr c" and "length msgs < 2^63"
  shows "sint (countOf k c) = int (recorded k msgs)"
proof -
  have "int (length msgs) < 2^63" using assms(2)
    by (metis of_nat_less_iff of_nat_numeral of_nat_power)
  then show ?thesis
    using recordAll_countOf[OF assms(1), of k] by (simp add: countOf_zeroCounts)
qed

lemma kindOf_Commit_D:
  "kindOf msg = Some KCommit \<Longrightarrow>
   \<exists>m. Body msg = SignedMessageBody m \<and> MsgType (Message m) = CommitMsgType \<and> length (Signers m) = 1"
  by (simp add: kindOf_def split: Body.splits MessageType.splits PartialSigMsgType.splits if_splits)

lemma kindOf_Proposal_D:
  "kindOf msg = Some KProposal \<Longrightarrow>
   \<exists>m. Body msg = SignedMessageBody m \<and> MsgType (Message m) = ProposalMsgType"
  by (simp add: kindOf_def split: Body.splits MessageType.splits PartialSigMsgType.splits if_splits)

lemma Validate_Commit_iff:
  assumes "kindOf msg = Some KCommit"
  shows "fst (Validate msg c) = None \<longleftrightarrow>
     \<not> (0 < sint (Commit c) \<or> 0 < sint (Decided c) \<or> 0 < sint (PostConsensus c))"
proof -
  from kindOf_Commit_D[OF assms] obtain m where
    "Body msg = SignedMessageBody m" "MsgType (Message m) = CommitMsgType" "length (Signers m) = 1"
    by blast
  then show ?thesis
    by (simp add: Validate_def unexpected_eq word_sless_alt)
qed

lemma Validate_Proposal_rejected:
  assumes "kindOf msg = Some KProposal"
    and "0 < sint (Commit c) \<or> 0 < sint (Decided c) \<or> 0 < sint (PostConsensus c)"
  shows "\<exists>got. fst (Validate msg c) = Some (ErrUnexpectedMessageType got)"
proof -
  from kindOf_Proposal_D[OF assms(1)] obtain m where
    "Body msg = SignedMessageBody m" "MsgType (Message m) = ProposalMsgType"
    by blast
  then show ?thesis using assms(2)
    by (simp add: Validate_def unexpected_eq word_sless_alt)
qed

subsection \<open>Proposal before Commit\<close>

text \<open>
  C5. For the counts of one key, reached by recording a history from the zero counts:
  when exactly one Proposal has been recorded, \<open>Validate\<close> of a single-signer Commit
  succeeds unless a Commit, a Decided or a PostConsensus message has already been
  recorded (it succeeds if and only if none has); and once a Commit has been
  recorded, \<open>Validate\<close> of a Proposal fails with \<open>ErrUnexpectedMessageType\<close>.
\<close>

theorem Proposal_before_Commit:
  "(recordAll msgs zeroCounts = Inr c \<and> length msgs < 2^63 \<and> recorded KProposal msgs = 1 \<and>
    kindOf commit = Some KCommit \<longrightarrow>
      (fst (Validate commit c) = None \<longleftrightarrow>
         recorded KCommit msgs = 0 \<and> recorded KDecided msgs = 0 \<and>
         recorded KPostConsensus msgs = 0)) \<and>
   (recordAll msgs zeroCounts = Inr c \<and> length msgs < 2^63 \<and> 0 < recorded KCommit msgs \<and>
    kindOf proposal = Some KProposal \<longrightarrow>
      (\<exists>got. fst (Validate proposal c) = Some (ErrUnexpectedMessageType got)))"
proof (intro conjI impI)
  assume a: "recordAll msgs zeroCounts = Inr c \<and> length msgs < 2^63 \<and>
             recorded KProposal msgs = 1 \<and> kindOf commit = Some KCommit"
  then have hc: "sint (Commit c) = int (recorded KCommit msgs)"
    and hd: "sint (Decided c) = int (recorded KDecided msgs)"
    and hp: "sint (PostConsensus c) = int (recorded KPostConsensus msgs)"
    using history_counts[of msgs c KCommit] history_counts[of msgs c KDecided]
      history_counts[of msgs c KPostConsensus] by simp_all
  have "fst (Validate commit c) = None \<longleftrightarrow>
     \<not> (0 < sint (Commit c) \<or> 0 < sint (Decided c) \<or> 0 < sint (PostConsensus c))"
    using a Validate_Commit_iff[of commit c] by simp
  then show "fst (Validate commit c) = None \<longleftrightarrow>
         recorded KCommit msgs = 0 \<and> recorded KDecided msgs = 0 \<and>
         recorded KPostConsensus msgs = 0"
    by (simp add: hc hd hp)
next
  assume a: "recordAll msgs zeroCounts = Inr c \<and> length msgs < 2^63 \<and>
             0 < recorded KCommit msgs \<and> kindOf proposal = Some KProposal"
  then have "sint (Commit c) = int (recorded KCommit msgs)"
    using history_counts[of msgs c KCommit] by simp
  then have "0 < sint (Commit c)" using a by simp
  then show "\<exists>got. fst (Validate proposal c) = Some (ErrUnexpectedMessageType got)"
    using a Validate_Proposal_rejected[of proposal c] by simp
qed

theorem Proposal_before_Commit_witness:
  "recordAll [signedMessage ProposalMsgType [3]] zeroCounts = Inr (zeroCounts\<lparr>Proposal := 1\<rparr>) \<and>
   fst (Validate (signedMessage CommitMsgType [3]) (zeroCounts\<lparr>Proposal := 1\<rparr>)) = None \<and>
   recordAll [signedMessage ProposalMsgType [3], signedMessage CommitMsgType [3]] zeroCounts
     = Inr (zeroCounts\<lparr>Proposal := 1, Commit := 1\<rparr>) \<and>
   fst (Validate (signedMessage CommitMsgType [3]) (zeroCounts\<lparr>Proposal := 1, Commit := 1\<rparr>)) \<noteq> None \<and>
   (\<exists>got. fst (Validate (signedMessage ProposalMsgType [3]) (zeroCounts\<lparr>Proposal := 1, Commit := 1\<rparr>))
      = Some (ErrUnexpectedMessageType got))"
proof -
  have r1: "recordAll [signedMessage ProposalMsgType [3]] zeroCounts = Inr (zeroCounts\<lparr>Proposal := 1\<rparr>)"
    by (simp add: signedMessage_def Record_def zeroCounts_def)
  have r2: "recordAll [signedMessage ProposalMsgType [3], signedMessage CommitMsgType [3]] zeroCounts
     = Inr (zeroCounts\<lparr>Proposal := 1, Commit := 1\<rparr>)"
    by (simp add: signedMessage_def Record_def zeroCounts_def)
  have kc: "kindOf (signedMessage CommitMsgType [3]) = Some KCommit"
    by (simp add: signedMessage_def kindOf_def)
  have kp: "kindOf (signedMessage ProposalMsgType [3]) = Some KProposal"
    by (simp add: signedMessage_def kindOf_def)
  have n1: "recorded KProposal [signedMessage ProposalMsgType [3]] = 1"
       "recorded KCommit [signedMessage ProposalMsgType [3]] = 0"
       "recorded KDecided [signedMessage ProposalMsgType [3]] = 0"
       "recorded KPostConsensus [signedMessage ProposalMsgType [3]] = 0"
    by (simp_all add: recorded_def kp)
  have n2: "recorded KProposal [signedMessage ProposalMsgType [3], signedMessage CommitMsgType [3]] = 1"
       "recorded KCommit [signedMessage ProposalMsgType [3], signedMessage CommitMsgType [3]] = 1"
    by (simp_all add: recorded_def kp kc)
  show ?thesis
    using Proposal_before_Commit[of "[signedMessage ProposalMsgType [3]]" "zeroCounts\<lparr>Proposal := 1\<rparr>"
            "signedMessage CommitMsgType [3]" "signedMessage ProposalMsgType [3]"]
          Proposal_before_Commit[of "[signedMessage ProposalMsgType [3], signedMessage CommitMsgType [3]]"
            "zeroCounts\<lparr>Proposal := 1, Commit := 1\<rparr>"
            "signedMessage CommitMsgType [3]" "signedMessage ProposalMsgType [3]"]
          r1 r2 kc kp n1 n2
    by simp
qed

subsection \<open>Repeated Decided deliveries\<close>

text \<open>
  C1 states that repeated Decided deliveries (Commit messages with more than one signer)
  pass \<open>Validate\<close> up to the Decided limit of \<open>C + 1\<close>, so that with committee size 4
  four distinct Decided deliveries validate and are recorded. The code accepts the first
  only: from the zero counts the first Decided validates and is recorded, the limits for
  committee size 4 are not reached, and yet a second, distinct Decided is rejected, by
  the first guard of the Commit case, whose \<open>c.Decided > 0\<close> stands alone in the
  disjunction.
\<close>

theorem second_Decided_rejected:
  "fst (Validate (signedMessage CommitMsgType [1, 2, 3]) zeroCounts) = None \<and>
   Record (signedMessage CommitMsgType [1, 2, 3]) zeroCounts = Inr (zeroCounts\<lparr>Decided := 1\<rparr>) \<and>
   \<not> ReachedLimits (zeroCounts\<lparr>Decided := 1\<rparr>) (maxMessageCounts 4) \<and>
   fst (Validate (signedMessage CommitMsgType [1, 2, 4]) (zeroCounts\<lparr>Decided := 1\<rparr>)) =
     Some (ErrUnexpectedMessageType
       ''commit, having pre-consensus: 0, proposal: 0, prepare: 0, commit: 0, decided: 1, round change: 0, post-consensus: 0'')"
proof -
  have s: "fst (String (zeroCounts\<lparr>Decided := 1\<rparr>)) =
     ''pre-consensus: 0, proposal: 0, prepare: 0, commit: 0, decided: 1, round change: 0, post-consensus: 0''"
    by code_simp
  have v1: "fst (Validate (signedMessage CommitMsgType [1, 2, 3]) zeroCounts) = None"
    by (simp add: Validate_def signedMessage_def zeroCounts_def word_sless_alt)
  have r: "Record (signedMessage CommitMsgType [1, 2, 3]) zeroCounts = Inr (zeroCounts\<lparr>Decided := 1\<rparr>)"
    by (simp add: Record_def signedMessage_def zeroCounts_def)
  have l: "\<not> ReachedLimits (zeroCounts\<lparr>Decided := 1\<rparr>) (maxMessageCounts 4)"
    by (simp add: ReachedLimits_def zeroCounts_def maxMessageCounts_def word_sle_eq)
  have v2: "fst (Validate (signedMessage CommitMsgType [1, 2, 4]) (zeroCounts\<lparr>Decided := 1\<rparr>)) =
     Some (ErrUnexpectedMessageType (''commit'' @ '', having '' @ fst (String (zeroCounts\<lparr>Decided := 1\<rparr>))))"
    by (simp add: Validate_def signedMessage_def unexpected_eq zeroCounts_def word_sless_alt)
  show ?thesis
    unfolding v2 s using v1 r l by simp
qed

subsection \<open>Unrecognized kinds\<close>

text \<open>
  C2 states that every message of a kind the taxonomy does not recognize is rejected by
  \<open>Validate\<close> with an error of kind UnexpectedMessageType. The code rejects a body of
  another type only, and with an error made by \<open>fmt.Errorf\<close>; a signed QBFT message
  of an unknown message type and a partial-signature message of an unknown type are
  accepted, whatever the counts.
\<close>

theorem unknown_types_accepted:
  "fst (Validate (signedMessage (OtherMsgType n) signers) c) = None \<and>
   fst (Validate (partialSignatureMessage (OtherPartialSigMsgType n) signer) c) = None \<and>
   fst (Validate \<lparr>Body = OtherBody d\<rparr> c) = Some (Errorf (''unexpected message type: '' @ d))"
  by (simp add: Validate_def signedMessage_def partialSignatureMessage_def)

subsection \<open>Panics\<close>



section \<open>Properties of the descriptor builder\<close>


section \<open>Properties of the peer score inspector\<close>

lemma inspectTopic_total:
  "totalInvalidMessages (inspectTopic ops params ts st) =
     (if f_less ops (f_zero ops) (InvalidMessageDeliveries (snd ts))
      then f_add ops (totalInvalidMessages st) (f_sqrt ops (InvalidMessageDeliveries (snd ts)))
      else totalInvalidMessages st)"
  by (cases ts) (simp add: inspectTopic_def Let_def split: option.split)

lemma inspectTopics_total:
  "totalInvalidMessages (inspectTopics ops params topics st) =
     foldl (f_add ops) (totalInvalidMessages st)
       (map (f_sqrt ops)
          (filter (f_less ops (f_zero ops)) (map (InvalidMessageDeliveries \<circ> snd) topics)))"
  by (induction topics arbitrary: st) (simp_all add: inspectTopic_total)

lemma foldl_plus_real: "foldl (+) (a :: real) xs = a + sum_list xs"
  by (induction xs arbitrary: a) simp_all

text \<open>
  C8. For every snapshot of a peer, the inspector's total of invalid messages is the sum,
  taken from zero in the order of the iteration, of the square roots of
  \<open>InvalidMessageDeliveries\<close> over the topics where it is strictly positive. This holds
  for whatever the float operations compute; in exact arithmetic it is the sum of the
  square roots, and a peer with \<open>InvalidMessageDeliveries = 4\<close> on exactly one topic and
  0 on all others gets the total 2.
\<close>

theorem scoreInspector_total:
  "totalInvalidMessages (scoreInspector ops params topics) =
     foldl (f_add ops) (f_zero ops)
       (map (f_sqrt ops)
          (filter (f_less ops (f_zero ops)) (map (InvalidMessageDeliveries \<circ> snd) topics))) \<and>
   totalInvalidMessages (scoreInspector exact_ops rparams rtopics) =
     sum_list (map sqrt (filter (\<lambda>x. 0 < x) (map (InvalidMessageDeliveries \<circ> snd) rtopics))) \<and>
   ((\<forall>ts \<in> set (before @ after). InvalidMessageDeliveries (snd ts) = 0) \<longrightarrow>
      totalInvalidMessages
        (scoreInspector exact_ops rparams
           (before @ (topic, \<lparr>MeshMessageDeliveries = mesh, InvalidMessageDeliveries = 4\<rparr>) # after))
      = 2)"
proof (intro conjI impI)
  show "totalInvalidMessages (scoreInspector ops params topics) =
     foldl (f_add ops) (f_zero ops)
       (map (f_sqrt ops)
          (filter (f_less ops (f_zero ops)) (map (InvalidMessageDeliveries \<circ> snd) topics)))"
    by (simp add: scoreInspector_def inspectTopics_total)
next
  show "totalInvalidMessages (scoreInspector exact_ops rparams rtopics) =
     sum_list (map sqrt (filter (\<lambda>x. 0 < x) (map (InvalidMessageDeliveries \<circ> snd) rtopics)))"
    by (simp add: scoreInspector_def inspectTopics_total exact_ops_def foldl_plus_real)
next
  assume z: "\<forall>ts \<in> set (before @ after). InvalidMessageDeliveries (snd ts) = 0"
  have "filter (\<lambda>x. 0 < x) (map (InvalidMessageDeliveries \<circ> snd) before) = []"
    and "filter (\<lambda>x. 0 < x) (map (InvalidMessageDeliveries \<circ> snd) after) = []"
    using z by (auto simp: filter_empty_conv)
  then show "totalInvalidMessages
        (scoreInspector exact_ops rparams
           (before @ (topic, \<lparr>MeshMessageDeliveries = mesh, InvalidMessageDeliveries = 4\<rparr>) # after))
      = 2"
    by (simp add: scoreInspector_def inspectTopics_total exact_ops_def foldl_plus_real)
qed

theorem scoreInspector_total_witness:
  "totalInvalidMessages
     (scoreInspector exact_ops Map.empty
        [(''ssv.v2.1'', \<lparr>MeshMessageDeliveries = 7, InvalidMessageDeliveries = 0\<rparr>),
         (''ssv.v2.2'', \<lparr>MeshMessageDeliveries = 3, InvalidMessageDeliveries = 4\<rparr>),
         (''ssv.v2.3'', \<lparr>MeshMessageDeliveries = 0, InvalidMessageDeliveries = 0\<rparr>)]) = 2"
  using scoreInspector_total
    [of exact_ops Map.empty "[]" Map.empty "[]"
        "[(''ssv.v2.1'', \<lparr>MeshMessageDeliveries = 7, InvalidMessageDeliveries = 0\<rparr>)]"
        "[(''ssv.v2.3'', \<lparr>MeshMessageDeliveries = 0, InvalidMessageDeliveries = 0\<rparr>)]"
        "''ssv.v2.2''" 3]
  by simp

end
